theory Spec2Isabelle
  imports Main "HOL-Library.Sublist"
begin

section \<open>Values shared by the backend and its libraries\<close>

text \<open>
  The backend is three Express routes (\<open>routes/auth.routes.js\<close>), one middleware
  (\<open>middlewares/auth.middleware.js\<close>) and one Sequelize model (\<open>models/user.model.js\<close>).
  Everything else it runs is third-party: \<open>jsonwebtoken\<close>, \<open>bcryptjs\<close>, \<open>uuid\<close>,
  \<open>sequelize\<close> and \<open>express\<close>.  The repository's own functions are embedded line by line;
  the libraries are embedded by their documented control flow, with the cryptographic
  and encoding primitives left as parameters (record \<open>lib\<close> below).
\<close>

datatype json = JNull | JStr string | JNum nat | JDate nat | JObj "(string \<times> json) list"

text \<open>The exceptions that can be thrown while a request is served.\<close>

datatype js_error =
    TypeError
  | SyntaxError
  | JsonWebTokenError string
  | TokenExpiredError
  | ERR_HTTP_HEADERS_SENT
  | IllegalArguments
  | SequelizeValidationError
  | SequelizeUniqueConstraintError

text \<open>The payload of a token: \<open>jwt.sign({ email }, secret, { expiresIn: "1h" })\<close> adds
  \<open>iat\<close> and \<open>exp\<close> (epoch seconds) to the \<open>email\<close> the route passes in.  A payload
  without \<open>exp\<close> is one the library never expires.\<close>

record claims =
  claim_email :: string
  claim_iat :: nat
  claim_exp :: "nat option"

text \<open>
  The primitives of the libraries that the model does not compute:
  \<^item> \<open>bcrypt_hash p s\<close> is \<open>bcryptjs.hashSync(p, s)\<close> on strings and
    \<open>bcrypt_compare p h\<close> is \<open>bcryptjs.compareSync(p, h)\<close> on strings;
  \<^item> \<open>hmac alg key input\<close> is the base64url HMAC signature that \<open>jwa\<close> computes;
  \<^item> \<open>enc_payload\<close> is base64url of \<open>JSON.stringify\<close> of the payload, \<open>dec_payload\<close>
    and \<open>dec_header\<close> read a segment back (\<open>None\<close> when its JSON does not parse);
    \<open>dec_header\<close> yields the header's \<open>alg\<close>.
\<close>

record lib =
  bcrypt_hash :: "string \<Rightarrow> string \<Rightarrow> string"
  bcrypt_compare :: "string \<Rightarrow> string \<Rightarrow> bool"
  hmac :: "string \<Rightarrow> string \<Rightarrow> string \<Rightarrow> string"
  enc_payload :: "claims \<Rightarrow> string"
  dec_payload :: "string \<Rightarrow> claims option"
  dec_header :: "string \<Rightarrow> string option"

subsection \<open>JavaScript string operations\<close>

text \<open>\<open>s.split(c)\<close> for a one-character separator: \<open>"".split(" ")\<close> is \<open>[""]\<close>.\<close>

fun split_on :: "char \<Rightarrow> string \<Rightarrow> string list" where
  "split_on c [] = [[]]"
| "split_on c (x # xs) =
     (if x = c then [] # split_on c xs
      else (case split_on c xs of
              [] \<Rightarrow> [[x]]
            | y # ys \<Rightarrow> (x # y) # ys))"

text \<open>\<open>xs[i]\<close> on a JavaScript array: \<open>undefined\<close> out of range.\<close>

definition js_index :: "'a list \<Rightarrow> nat \<Rightarrow> 'a option" where
  "js_index xs i = (if i < length xs then Some (xs ! i) else None)"

definition is_whitespace :: "char \<Rightarrow> bool" where
  "is_whitespace c = (c \<in> set [CHR '' '', CHR 0x09, CHR 0x0A, CHR 0x0B, CHR 0x0C, CHR 0x0D])"

text \<open>The base64url alphabet, and the shape \<open>jws\<close> asks of a token of three parts
  before it reads it (its \<open>JWS_REGEX\<close>): header and payload not empty, every character
  of the three parts in the alphabet.\<close>

definition b64url :: "char \<Rightarrow> bool" where
  "b64url c =
     (c \<in> set ''ABCDEFGHIJKLMNOPQRSTUVWXYZabcdefghijklmnopqrstuvwxyz0123456789-_'')"

definition JWS_REGEX :: "string \<Rightarrow> string \<Rightarrow> string \<Rightarrow> bool" where
  "JWS_REGEX h p s \<longleftrightarrow>
     h \<noteq> [] \<and> p \<noteq> [] \<and> list_all b64url h \<and> list_all b64url p \<and> list_all b64url s"

section \<open>The jsonwebtoken library, as the backend calls it\<close>

text \<open>The header segment of every token \<open>jwt.sign\<close> issues with a string secret and no
  options but \<open>expiresIn\<close>: base64url of \<open>{"alg":"HS256","typ":"JWT"}\<close>.\<close>

definition jwt_header :: string where
  "jwt_header = ''eyJhbGciOiJIUzI1NiIsInR5cCI6IkpXVCJ9''"

text \<open>\<open>expiresIn: "1h"\<close>, in seconds.\<close>

definition expiresIn :: nat where
  "expiresIn = 3600"

text \<open>\<open>jwt.sign({ email }, secret, { expiresIn: "1h" })\<close> at clock reading \<open>now\<close>
  (epoch seconds, \<open>Math.floor(Date.now() / 1000)\<close>).\<close>

definition jwt_sign :: "lib \<Rightarrow> string \<Rightarrow> string \<Rightarrow> nat \<Rightarrow> string" where
  "jwt_sign L email secret now =
     (let payload = \<lparr>claim_email = email, claim_iat = now, claim_exp = Some (now + expiresIn)\<rparr>;
          input = jwt_header @ ''.'' @ enc_payload L payload
      in input @ ''.'' @ hmac L ''HS256'' secret input)"

text \<open>
  \<open>jwt.verify(token, secret)\<close> with a string secret, in the order of the library's
  \<open>verify.js\<close>.  The argument must be there and must have three dot-separated parts
  (\<open>jwt malformed\<close>).  Then \<open>jws.decode\<close> reads it: a token that fails \<open>JWS_REGEX\<close> or
  whose header does not decode is an \<open>invalid token\<close>; the header \<open>jwt.sign\<close> writes
  has \<open>typ: "JWT"\<close>, and for such a header the payload goes through \<open>JSON.parse\<close>,
  whose \<open>SyntaxError\<close> \<open>jwt.verify\<close> throws on.  Then a signature must be present, the
  header's algorithm must be an HMAC one, the signature must be the one recomputed over
  the first two parts, and the clock must be before \<open>exp\<close>.  \<open>Inl\<close> is the exception
  thrown.  \<open>dec_payload\<close> is \<open>None\<close> when \<open>JSON.parse\<close> throws; parsed payloads are read
  as \<open>claims\<close>, and claims the routes never set (\<open>nbf\<close>, \<open>aud\<close>, \<open>iss\<close>) are left out.
\<close>

definition jwt_verify :: "lib \<Rightarrow> string option \<Rightarrow> string \<Rightarrow> nat \<Rightarrow> js_error + claims" where
  "jwt_verify L token secret now =
     (case token of
        None \<Rightarrow> Inl (JsonWebTokenError ''jwt must be provided'')
      | Some t \<Rightarrow>
          if t = [] then Inl (JsonWebTokenError ''jwt must be provided'')
          else (case split_on CHR ''.'' t of
             [h, p, s] \<Rightarrow>
               if \<not> JWS_REGEX h p s then Inl (JsonWebTokenError ''invalid token'')
               else
               (case dec_header L h of
                  None \<Rightarrow> Inl (JsonWebTokenError ''invalid token'')
                | Some alg \<Rightarrow>
                   (case dec_payload L p of
                      None \<Rightarrow> Inl SyntaxError
                    | Some payload \<Rightarrow>
                        if list_all is_whitespace s
                          then Inl (JsonWebTokenError ''jwt signature is required'')
                        else if alg \<notin> set [''HS256'', ''HS384'', ''HS512'']
                          then Inl (JsonWebTokenError ''invalid algorithm'')
                        else if s \<noteq> hmac L alg secret (h @ ''.'' @ p)
                          then Inl (JsonWebTokenError ''invalid signature'')
                        else (case claim_exp payload of
                                None \<Rightarrow> Inr payload
                              | Some e \<Rightarrow>
                                  if now \<ge> e then Inl TokenExpiredError else Inr payload)))
           | _ \<Rightarrow> Inl (JsonWebTokenError ''jwt malformed'')))"

section \<open>Express: one request and its response\<close>

record response =
  status :: nat
  body :: json

text \<open>
  What is observable of one request to \<open>GET /protected\<close>: the response written to the
  client (\<open>None\<close> while nothing was sent), \<open>req.user\<close>, whether the route's handler was
  called, and an exception that nobody caught.
\<close>

record exchange =
  sent :: "response option"
  user :: "claims option"
  handler_invoked :: bool
  uncaught :: "js_error option"

definition fresh_exchange :: exchange where
  "fresh_exchange = \<lparr>sent = None, user = None, handler_invoked = False, uncaught = None\<rparr>"

definition message :: "string \<Rightarrow> json" where
  "message m = JObj [(''message'', JStr m)]"

text \<open>\<open>res.status(st).json(b)\<close>: the first call sends, a later one throws
  \<open>ERR_HTTP_HEADERS_SENT\<close> and leaves what was sent as it is.\<close>

definition res_json :: "nat \<Rightarrow> json \<Rightarrow> exchange \<Rightarrow> js_error + exchange" where
  "res_json st b x =
     (case sent x of
        None \<Rightarrow> Inr (x\<lparr>sent := Some \<lparr>status = st, body = b\<rparr>\<rparr>)
      | Some _ \<Rightarrow> Inl ERR_HTTP_HEADERS_SENT)"

section \<open>The admission middleware and the protected route\<close>

text \<open>\<open>const jwt_token_secret = "1234"\<close> of \<open>auth.middleware.js\<close>.\<close>

definition middleware_secret :: string where
  "middleware_secret = ''1234''"

text \<open>
  \<open>authMiddleware(req, res, next)\<close>.  \<open>hdr\<close> is \<open>req.headers.authorization\<close>
  (\<open>None\<close> when the request has no such header), \<open>next\<close> is the rest of the route.

  The first \<open>if\<close> writes the 403 and does not return, so the \<open>try\<close> block runs in
  every case.  In the \<open>try\<close> block \<open>accessToken.split(" ")[1]\<close> throws a TypeError when
  the header is missing; otherwise its value (possibly \<open>undefined\<close>) goes to
  \<open>jwt.verify\<close>.  Whatever is thrown there is caught, and the \<open>catch\<close> block writes the
  401; when the 403 was already written that second write throws out of the middleware.
  The route's handler is an \<open>async\<close> function, so nothing it throws comes back into
  the \<open>try\<close> block.
\<close>

definition authMiddleware ::
  "lib \<Rightarrow> nat \<Rightarrow> string option \<Rightarrow> (exchange \<Rightarrow> exchange) \<Rightarrow> exchange \<Rightarrow> exchange" where
  "authMiddleware L now hdr next x =
     (case (if (case hdr of None \<Rightarrow> True | Some a \<Rightarrow> a = [] \<or> \<not> prefix ''Bearer '' a)
            then res_json 403 (message ''Incorrect Token! '') x
            else Inr x) of
        Inl e \<Rightarrow> x\<lparr>uncaught := Some e\<rparr>
      | Inr x1 \<Rightarrow>
          (case (case hdr of
                   None \<Rightarrow> Inl TypeError
                 | Some a \<Rightarrow> jwt_verify L (js_index (split_on CHR '' '' a) 1) middleware_secret now) of
             Inr payload \<Rightarrow> next (x1\<lparr>user := Some payload\<rparr>)
           | Inl error \<Rightarrow>
               (case res_json 401 (message ''Unauthorized!'') x1 of
                  Inl e \<Rightarrow> x1\<lparr>uncaught := Some e\<rparr>
                | Inr x2 \<Rightarrow> x2)))"

text \<open>The handler of \<open>GET /protected\<close>:
  \<open>res.status(200).json({ message: "Has entrado en ruta privada! y tu email es: " + req.user.email })\<close>.
  Reading \<open>req.user.email\<close> when \<open>req.user\<close> was never set is a TypeError.\<close>

definition protected_handler :: "exchange \<Rightarrow> exchange" where
  "protected_handler x =
     (case user x of
        None \<Rightarrow> x\<lparr>uncaught := Some TypeError\<rparr>
      | Some u \<Rightarrow>
          (case res_json 200
                  (message (''Has entrado en ruta privada! y tu email es: '' @ claim_email u)) x of
             Inl e \<Rightarrow> x\<lparr>uncaught := Some e\<rparr>
           | Inr x' \<Rightarrow> x'))"

text \<open>\<open>router.get("/protected", authMiddleware, handler)\<close>: \<open>next()\<close> in the middleware
  calls the handler; the flag records that it was called.\<close>

definition get_protected :: "lib \<Rightarrow> nat \<Rightarrow> string option \<Rightarrow> exchange" where
  "get_protected L now hdr =
     authMiddleware L now hdr (\<lambda>x. protected_handler (x\<lparr>handler_invoked := True\<rparr>)) fresh_exchange"

section \<open>The User model\<close>

text \<open>A row of table \<open>users\<close>: the attributes \<open>sequelize.define("User", ...)\<close> declares.\<close>

record user_row =
  user_id :: string
  user_username :: string
  user_email :: string
  user_password :: string
  createdAt :: nat
  updatedAt :: nat

text \<open>The values handed to \<open>UserModel.create\<close>; \<open>None\<close> is \<open>undefined\<close>.\<close>

record user_values =
  new_id :: string
  new_username :: "string option"
  new_email :: "string option"
  new_password :: "string option"

text \<open>\<open>UserModel.findOne({ where: { email } })\<close>: a row with that email, if any.  The
  table is a list of rows; which of several rows with one email is returned plays no
  role below.  The database is taken to be reachable and to compare emails exactly.\<close>

definition findOne :: "user_row list \<Rightarrow> string \<Rightarrow> user_row option" where
  "findOne store email = find (\<lambda>u. user_email u = email) store"

text \<open>
  \<open>UserModel.create(values)\<close> at clock reading \<open>now\<close>.  The model declares
  \<open>allowNull: false\<close> for username, email and password, so a missing one is a validation
  error; \<open>id\<close> is the primary key, so a second row with the same id is a unique
  constraint error.  No attribute is declared \<open>unique\<close>: the email is not looked at.
  \<open>timestamps: true\<close> fills \<open>createdAt\<close> and \<open>updatedAt\<close>.  The result is the new row
  and the table with it.  The database is taken to store every row that the
  declaration allows.
\<close>

definition create :: "user_row list \<Rightarrow> user_values \<Rightarrow> nat \<Rightarrow> js_error + (user_row \<times> user_row list)" where
  "create store v now =
     (case (new_username v, new_email v, new_password v) of
        (Some n, Some e, Some p) \<Rightarrow>
          if new_id v \<in> set (map user_id store) then Inl SequelizeUniqueConstraintError
          else (let u = \<lparr>user_id = new_id v, user_username = n, user_email = e,
                           user_password = p, createdAt = now, updatedAt = now\<rparr>
                in Inr (u, store @ [u]))
      | _ \<Rightarrow> Inl SequelizeValidationError)"

text \<open>\<open>JSON.stringify\<close> of a model instance (\<open>toJSON\<close>): every attribute of the row.\<close>

definition toJSON :: "user_row \<Rightarrow> json" where
  "toJSON u = JObj [(''id'', JStr (user_id u)), (''username'', JStr (user_username u)),
                    (''email'', JStr (user_email u)), (''password'', JStr (user_password u)),
                    (''createdAt'', JDate (createdAt u)), (''updatedAt'', JDate (updatedAt u))]"

section \<open>The routes of \<open>auth.routes.js\<close>\<close>

text \<open>\<open>req.body\<close>, with the fields the routes read; \<open>None\<close> is a field the body does
  not have.  The email is a string in every request modelled here.\<close>

record req_body =
  username :: "string option"
  email :: string
  password :: "string option"

text \<open>What a route reads besides the request: \<open>uuidv4()\<close>, \<open>bcryptjs.genSaltSync(10)\<close>
  and the clock (epoch seconds).\<close>

record env =
  uuid :: string
  salt :: string
  clock :: nat

text \<open>\<open>bcryptjs.hashSync(s, salt)\<close> and \<open>bcryptjs.compareSync(s, hash)\<close> throw
  \<open>Illegal arguments\<close> when \<open>s\<close> is not a string.\<close>

definition hashSync :: "lib \<Rightarrow> string option \<Rightarrow> string \<Rightarrow> js_error + string" where
  "hashSync L s sl = (case s of None \<Rightarrow> Inl IllegalArguments | Some p \<Rightarrow> Inr (bcrypt_hash L p sl))"

definition compareSync :: "lib \<Rightarrow> string option \<Rightarrow> string \<Rightarrow> js_error + bool" where
  "compareSync L s h = (case s of None \<Rightarrow> Inl IllegalArguments | Some p \<Rightarrow> Inr (bcrypt_compare L p h))"

text \<open>\<open>POST /auth/signup\<close>: the response and the table afterwards.  Every exception of
  the \<open>try\<close> block ends in the \<open>catch\<close> block's 500.\<close>

definition signup :: "lib \<Rightarrow> env \<Rightarrow> user_row list \<Rightarrow> req_body \<Rightarrow> response \<times> user_row list" where
  "signup L ev store b =
     (case findOne store (email b) of
        Some isUser \<Rightarrow> (\<lparr>status = 400, body = message ''Users exists!''\<rparr>, store)
      | None \<Rightarrow>
          (case hashSync L (password b) (salt ev) of
             Inl error \<Rightarrow> (\<lparr>status = 500, body = message ''Create user Error''\<rparr>, store)
           | Inr h \<Rightarrow>
               (case create store \<lparr>new_id = uuid ev, new_username = username b,
                                   new_email = Some (email b), new_password = Some h\<rparr> (clock ev) of
                  Inl error \<Rightarrow> (\<lparr>status = 500, body = message ''Create user Error''\<rparr>, store)
                | Inr (u, store') \<Rightarrow>
                    (\<lparr>status = 201,
                      body = JObj [(''message'', JStr ''Users created!''), (''user'', toJSON u)]\<rparr>,
                     store'))))"

text \<open>\<open>const jwt_token_secret = "1234"\<close> of the signin route.\<close>

definition signin_secret :: string where
  "signin_secret = ''1234''"

text \<open>\<open>POST /auth/signin\<close> at clock reading \<open>now\<close>: the response (the table is only read).\<close>

definition signin :: "lib \<Rightarrow> nat \<Rightarrow> user_row list \<Rightarrow> req_body \<Rightarrow> response" where
  "signin L now store b =
     (case findOne store (email b) of
        None \<Rightarrow> \<lparr>status = 400, body = message ''Users not exists!''\<rparr>
      | Some isUser \<Rightarrow>
          (case compareSync L (password b) (user_password isUser) of
             Inl error \<Rightarrow> \<lparr>status = 500, body = message ''Login user Error''\<rparr>
           | Inr ok \<Rightarrow>
               if \<not> ok then \<lparr>status = 400, body = message ''Incorrect password!''\<rparr>
               else \<lparr>status = 200,
                     body = JObj [(''message'', JStr ''Login ok!''),
                                  (''accessToken'', JStr (jwt_sign L (email b) signin_secret now))]\<rparr>))"

section \<open>The frontends' authentication state\<close>

text \<open>\<open>!!v\<close> for a value that is \<open>null\<close>, \<open>undefined\<close> (both \<open>None\<close>) or a string.\<close>

definition truthy :: "string option \<Rightarrow> bool" where
  "truthy v = (case v of None \<Rightarrow> False | Some s \<Rightarrow> s \<noteq> [])"

subsection \<open>The Context frontend (\<open>UserContext.jsx\<close>)\<close>

text \<open>The state of \<open>UserProvider\<close>: \<open>user\<close> (its email), \<open>token\<close> and \<open>loading\<close>.\<close>

record provider_state =
  ctx_user :: "string option"
  ctx_token :: "string option"
  ctx_loading :: bool

text \<open>The \<open>useState\<close> initial values; \<open>cookie\<close> is what \<open>getCookie('token')\<close> returns.\<close>

definition UserProvider :: "string option \<Rightarrow> provider_state" where
  "UserProvider cookie = \<lparr>ctx_user = None, ctx_token = cookie, ctx_loading = True\<rparr>"

definition login :: "string option \<Rightarrow> string \<Rightarrow> provider_state \<Rightarrow> provider_state" where
  "login accessToken userEmail s = s\<lparr>ctx_token := accessToken, ctx_user := Some userEmail\<rparr>"

definition logout :: "provider_state \<Rightarrow> provider_state" where
  "logout s = s\<lparr>ctx_token := None, ctx_user := None\<rparr>"

text \<open>\<open>const isAuthenticated = !!token\<close>, computed at every render.\<close>

definition ctx_isAuthenticated :: "provider_state \<Rightarrow> bool" where
  "ctx_isAuthenticated s = truthy (ctx_token s)"

subsection \<open>The Redux frontend (\<open>authSlice.js\<close>, \<open>ProtectedRoute.jsx\<close>)\<close>

record auth_state =
  auth_user :: "string option"
  auth_token :: "string option"
  auth_loading :: bool
  auth_error :: "string option"
  isAuthenticated :: bool

text \<open>\<open>initialState\<close>; \<open>cookie\<close> is what \<open>getCookie('token')\<close> returns when the module loads.\<close>

definition initialState :: "string option \<Rightarrow> auth_state" where
  "initialState cookie =
     \<lparr>auth_user = None, auth_token = cookie, auth_loading = False, auth_error = None,
      isAuthenticated = truthy cookie\<rparr>"

text \<open>The actions of the slice; \<open>loginSuccess\<close> carries \<open>{ token, email }\<close>, where the
  token is \<open>response.data.accessToken\<close> (\<open>None\<close> when the response has none).\<close>

datatype action =
    loginStart
  | loginSuccess "string option" string
  | loginFailure string
  | logoutAction
  | clearError
  | setLoading bool

text \<open>\<open>setCookie('token', v)\<close> stores \<open>encodeURIComponent(v)\<close>, which \<open>getCookie\<close> decodes
  again; \<open>undefined\<close> is stored as the string \<open>undefined\<close>.\<close>

definition setCookie :: "string option \<Rightarrow> string option" where
  "setCookie v = (case v of None \<Rightarrow> Some ''undefined'' | Some t \<Rightarrow> Some t)"

text \<open>The reducers of the slice, on the state and the \<open>token\<close> cookie.\<close>

fun reducer :: "auth_state \<times> string option \<Rightarrow> action \<Rightarrow> auth_state \<times> string option" where
  "reducer (s, cookie) loginStart = (s\<lparr>auth_loading := True, auth_error := None\<rparr>, cookie)"
| "reducer (s, cookie) (loginSuccess tok em) =
     (s\<lparr>auth_loading := False, auth_user := Some em, auth_token := tok,
        isAuthenticated := True, auth_error := None\<rparr>, setCookie tok)"
| "reducer (s, cookie) (loginFailure err) =
     (s\<lparr>auth_loading := False, auth_error := Some err, auth_user := None, auth_token := None,
        isAuthenticated := False\<rparr>, cookie)"
| "reducer (s, cookie) logoutAction =
     (s\<lparr>auth_user := None, auth_token := None, isAuthenticated := False, auth_error := None,
        auth_loading := False\<rparr>, None)"
| "reducer (s, cookie) clearError = (s\<lparr>auth_error := None\<rparr>, cookie)"
| "reducer (s, cookie) (setLoading l) = (s\<lparr>auth_loading := l\<rparr>, cookie)"

text \<open>What \<open>ProtectedRoute\<close> renders.\<close>

datatype view = Cargando | NavigateLogin | Children

definition ProtectedRoute :: "auth_state \<Rightarrow> view" where
  "ProtectedRoute s =
     (if auth_loading s then Cargando
      else if \<not> isAuthenticated s then NavigateLogin
      else Children)"

text \<open>A \<open>loginSuccess\<close> whose token is a non-empty string, as the signin route's
  \<open>accessToken\<close> is; every other action qualifies.\<close>

fun carries_token :: "action \<Rightarrow> bool" where
  "carries_token (loginSuccess tok em) = truthy tok"
| "carries_token a = True"

section \<open>Vocabulary of the properties\<close>

text \<open>The payload, payload segment and signature segment of the token that the signin
  route issues for \<open>em\<close> at clock reading \<open>t0\<close>.\<close>

definition issued_claims :: "string \<Rightarrow> nat \<Rightarrow> claims" where
  "issued_claims em t0 = \<lparr>claim_email = em, claim_iat = t0, claim_exp = Some (t0 + expiresIn)\<rparr>"

definition payload_segment :: "lib \<Rightarrow> string \<Rightarrow> nat \<Rightarrow> string" where
  "payload_segment L em t0 = enc_payload L (issued_claims em t0)"

definition signature_segment :: "lib \<Rightarrow> string \<Rightarrow> nat \<Rightarrow> string" where
  "signature_segment L em t0 =
     hmac L ''HS256'' signin_secret (jwt_header @ ''.'' @ payload_segment L em t0)"

text \<open>A base64url segment: not empty, every character in the alphabet (so it contains
  neither a dot nor a space).\<close>

definition segment :: "string \<Rightarrow> bool" where
  "segment s \<longleftrightarrow> s \<noteq> [] \<and> list_all b64url s"

text \<open>
  What the results below ask of the library primitives, at the one payload they
  concern: the header segment decodes to HS256, the payload segment decodes back to the
  payload, and payload and signature segments are base64url text, the signature not
  blank.
\<close>

definition library_contract :: "lib \<Rightarrow> string \<Rightarrow> nat \<Rightarrow> bool" where
  "library_contract L em t0 \<longleftrightarrow>
     dec_header L jwt_header = Some ''HS256'' \<and>
     dec_payload L (payload_segment L em t0) = Some (issued_claims em t0) \<and>
     segment (payload_segment L em t0) \<and>
     segment (signature_segment L em t0) \<and>
     \<not> list_all is_whitespace (signature_segment L em t0)"

text \<open>Replacing one character of the issued token, in its payload segment or in its
  signature segment, by \<open>ch\<close> at index \<open>i\<close>.\<close>

datatype tampering = InPayload nat char | InSignature nat char

fun tampered :: "lib \<Rightarrow> string \<Rightarrow> nat \<Rightarrow> tampering \<Rightarrow> string" where
  "tampered L em t0 (InPayload i ch) =
     jwt_header @ ''.'' @ (payload_segment L em t0)[i := ch] @ ''.'' @ signature_segment L em t0"
| "tampered L em t0 (InSignature i ch) =
     jwt_header @ ''.'' @ payload_segment L em t0 @ ''.'' @ (signature_segment L em t0)[i := ch]"

fun changes_one_char :: "lib \<Rightarrow> string \<Rightarrow> nat \<Rightarrow> tampering \<Rightarrow> bool" where
  "changes_one_char L em t0 (InPayload i ch) =
     (i < length (payload_segment L em t0) \<and> ch \<noteq> payload_segment L em t0 ! i)"
| "changes_one_char L em t0 (InSignature i ch) =
     (i < length (signature_segment L em t0) \<and> ch \<noteq> signature_segment L em t0 ! i)"

text \<open>The altered payload is not a second preimage of the issued signature under the
  middleware's key.\<close>

fun no_collision :: "lib \<Rightarrow> string \<Rightarrow> nat \<Rightarrow> tampering \<Rightarrow> bool" where
  "no_collision L em t0 (InPayload i ch) =
     (hmac L ''HS256'' middleware_secret (jwt_header @ ''.'' @ (payload_segment L em t0)[i := ch])
        \<noteq> signature_segment L em t0)"
| "no_collision L em t0 (InSignature i ch) = True"

text \<open>The rejection of the middleware's \<open>catch\<close> block, and the admission of a payload.\<close>

definition rejected_401 :: exchange where
  "rejected_401 =
     \<lparr>sent = Some \<lparr>status = 401, body = message ''Unauthorized!''\<rparr>, user = None,
      handler_invoked = False, uncaught = None\<rparr>"

definition admitted :: "claims \<Rightarrow> exchange" where
  "admitted c =
     \<lparr>sent = Some \<lparr>status = 200,
                    body = message (''Has entrado en ruta privada! y tu email es: '' @ claim_email c)\<rparr>,
      user = Some c, handler_invoked = True, uncaught = None\<rparr>"

text \<open>The \<open>user\<close> object of a response body, and its keys.\<close>

definition user_object :: "response \<Rightarrow> (string \<times> json) list" where
  "user_object r =
     (case body r of
        JObj kvs \<Rightarrow> (case map_of kvs ''user'' of Some (JObj fs) \<Rightarrow> fs | _ \<Rightarrow> [])
      | _ \<Rightarrow> [])"

definition user_fields :: "response \<Rightarrow> string list" where
  "user_fields r = map fst (user_object r)"

section \<open>A sample instance of the library primitives\<close>

text \<open>
  An executable stand-in for the primitives, to run the model on explicit requests.
  Segments stay in the base64url alphabet by escaping dots, spaces, dashes and at-signs
  with an underscore; numbers are written in decimal; the mock signature is the escaped
  key and input; the mock hash is the salt followed by the reversed password.
\<close>

fun escape :: "string \<Rightarrow> string" where
  "escape [] = []"
| "escape (c # cs) =
     (if c = CHR ''.'' then ''_d'' @ escape cs
      else if c = CHR '' '' then ''_s'' @ escape cs
      else if c = CHR ''-'' then ''_m'' @ escape cs
      else if c = CHR ''@'' then ''_a'' @ escape cs
      else if c = CHR ''_'' then ''__'' @ escape cs
      else c # escape cs)"

fun unescape :: "string \<Rightarrow> string option" where
  "unescape [] = Some []"
| "unescape (c # cs) =
     (if c = CHR ''_'' then
        (case cs of
           [] \<Rightarrow> None
         | e # es \<Rightarrow>
            (case map_of [(CHR ''d'', CHR ''.''), (CHR ''s'', CHR '' ''), (CHR ''m'', CHR ''-''),
                          (CHR ''a'', CHR ''@''), (CHR ''_'', CHR ''_'')] e of
               None \<Rightarrow> None
             | Some r \<Rightarrow> map_option ((#) r) (unescape es)))
      else map_option ((#) c) (unescape cs))"

function decimal :: "nat \<Rightarrow> string" where
  "decimal n =
     (if n < 10 then [''0123456789'' ! n]
      else decimal (n div 10) @ [''0123456789'' ! (n mod 10)])"
  by pat_completeness auto
termination
  by (relation "measure id") auto

declare decimal.simps [simp del]

definition digit :: "char \<Rightarrow> nat option" where
  "digit c = map_of [(CHR ''0'', 0), (CHR ''1'', 1), (CHR ''2'', 2), (CHR ''3'', 3), (CHR ''4'', 4),
                     (CHR ''5'', 5), (CHR ''6'', 6), (CHR ''7'', 7), (CHR ''8'', 8), (CHR ''9'', 9)] c"

fun undecimal_acc :: "nat \<Rightarrow> string \<Rightarrow> nat option" where
  "undecimal_acc a [] = Some a"
| "undecimal_acc a (c # cs) =
     (case digit c of None \<Rightarrow> None | Some d \<Rightarrow> undecimal_acc (10 * a + d) cs)"

definition undecimal :: "string \<Rightarrow> nat option" where
  "undecimal cs = (if cs = [] then None else undecimal_acc 0 cs)"

definition sample_enc :: "claims \<Rightarrow> string" where
  "sample_enc c =
     escape (claim_email c) @ ''-'' @ decimal (claim_iat c) @ ''-'' @
     (case claim_exp c of None \<Rightarrow> [] | Some e \<Rightarrow> decimal e)"

definition sample_dec :: "string \<Rightarrow> claims option" where
  "sample_dec s =
     (case split_on CHR ''-'' s of
        [a, b, c] \<Rightarrow>
          (case (unescape a, undecimal b) of
             (Some em, Some i) \<Rightarrow>
               if c = [] then Some \<lparr>claim_email = em, claim_iat = i, claim_exp = None\<rparr>
               else (case undecimal c of
                       None \<Rightarrow> None
                     | Some e \<Rightarrow> Some \<lparr>claim_email = em, claim_iat = i, claim_exp = Some e\<rparr>)
           | _ \<Rightarrow> None)
      | _ \<Rightarrow> None)"

definition sample_lib :: lib where
  "sample_lib =
     \<lparr>bcrypt_hash = (\<lambda>p s. s @ ''$'' @ rev p),
      bcrypt_compare = (\<lambda>p h. suffix (''$'' @ rev p) h),
      hmac = (\<lambda>alg key input. alg @ ''_'' @ escape key @ ''_'' @ escape input),
      enc_payload = sample_enc,
      dec_payload = sample_dec,
      dec_header = (\<lambda>h. if h = jwt_header then Some ''HS256'' else None)\<rparr>"

text \<open>A table with one account, and the environment of one signup.\<close>

definition alice :: user_row where
  "alice = \<lparr>user_id = ''u1'', user_username = ''alice'', user_email = ''al@x.io'',
            user_password = ''salt$321'', createdAt = 900, updatedAt = 900\<rparr>"

definition sample_env :: env where
  "sample_env = \<lparr>uuid = ''u2'', salt = ''salt'', clock = 1000\<rparr>"

definition bob_signup :: req_body where
  "bob_signup = \<lparr>username = Some ''bob'', email = ''bob@x.io'', password = Some ''pw''\<rparr>"

text \<open>The altered token still passes \<open>jws.decode\<close>: the new character is in the
  base64url alphabet, and an altered payload still parses.\<close>

fun still_parses :: "lib \<Rightarrow> string \<Rightarrow> nat \<Rightarrow> tampering \<Rightarrow> bool" where
  "still_parses L em t0 (InPayload i ch) =
     (b64url ch \<and> dec_payload L ((payload_segment L em t0)[i := ch]) \<noteq> None)"
| "still_parses L em t0 (InSignature i ch) = b64url ch"

text \<open>
  The exception expected of \<open>jwt.verify\<close> for each alteration.  A dot makes four parts,
  and a space in the payload leaves two parts of the word that \<open>split(" ")[1]\<close> cuts
  out: \<open>jwt malformed\<close>.  A space in the signature cuts the signature short (or away).
  Any other character outside the alphabet fails \<open>JWS_REGEX\<close>.  A base64url character
  in the payload either breaks its JSON or leaves a payload that the signature does not
  fit; in the signature it leaves a signature that does not fit.
\<close>

fun thrown_for :: "lib \<Rightarrow> string \<Rightarrow> nat \<Rightarrow> tampering \<Rightarrow> js_error" where
  "thrown_for L em t0 (InPayload i ch) =
     (if ch = CHR ''.'' \<or> ch = CHR '' '' then JsonWebTokenError ''jwt malformed''
      else if \<not> b64url ch then JsonWebTokenError ''invalid token''
      else if dec_payload L ((payload_segment L em t0)[i := ch]) = None then SyntaxError
      else JsonWebTokenError ''invalid signature'')"
| "thrown_for L em t0 (InSignature i ch) =
     (if ch = CHR ''.'' then JsonWebTokenError ''jwt malformed''
      else if ch = CHR '' '' then
        (if i = 0 then JsonWebTokenError ''jwt signature is required''
         else JsonWebTokenError ''invalid signature'')
      else if \<not> b64url ch then JsonWebTokenError ''invalid token''
      else JsonWebTokenError ''invalid signature'')"

section \<open>Lookups in the table\<close>

lemma findOne_member:
  assumes "u \<in> set store" and "user_email u = e"
  shows "\<exists>u'. findOne store e = Some u' \<and> u' \<in> set store \<and> user_email u' = e"
proof (cases "findOne store e")
  case None
  with assms show ?thesis by (auto simp: findOne_def find_None_iff)
next
  case (Some u')
  then show ?thesis by (auto simp: findOne_def find_Some_iff)
qed


section \<open>Signup with an email that is already stored\<close>

text \<open>
  C6.  For every table that contains a row with email \<open>e\<close>, signup with email \<open>e\<close> is
  answered with the already-exists error of the route (status 400, message
  \<open>Users exists!\<close>) and the table after the call is the table before it: no row is
  created and no row is changed.
\<close>

theorem signup_existing_email:
  assumes "u \<in> set store" and "user_email u = email b"
  shows "signup L ev store b = (\<lparr>status = 400, body = message ''Users exists!''\<rparr>, store)"
proof -
  from findOne_member[OF assms] obtain u' where "findOne store (email b) = Some u'" by blast
  then show ?thesis by (simp add: signup_def)
qed

theorem signup_existing_email_witness:
  "signup sample_lib sample_env [alice]
       \<lparr>username = Some ''bob'', email = ''al@x.io'', password = Some ''pw''\<rparr>
     = (\<lparr>status = 400, body = message ''Users exists!''\<rparr>, [alice])"
  using signup_existing_email[of alice "[alice]"
      "\<lparr>username = Some ''bob'', email = ''al@x.io'', password = Some ''pw''\<rparr>"
      sample_lib sample_env]
  by (simp add: alice_def)

section \<open>Signup without a password\<close>

text \<open>
  C10, as amended.  For every signup request whose email matches no stored row and
  whose body has no password field, \<open>bcryptjs.hashSync\<close> throws, the request is answered
  with the generic 500 \<open>Create user Error\<close>, and the table is unchanged.  (When the
  email is already stored the route answers 400 before it reaches the hashing step:
  the counterexample.)
\<close>

theorem signup_without_password:
  assumes "findOne store (email b) = None" and "password b = None"
  shows "hashSync L (password b) (salt ev) = Inl IllegalArguments \<and>
         signup L ev store b = (\<lparr>status = 500, body = message ''Create user Error''\<rparr>, store)"
  using assms by (simp add: signup_def hashSync_def)

theorem signup_without_password_witness:
  "hashSync sample_lib None ''salt'' = Inl IllegalArguments \<and>
   signup sample_lib sample_env [alice]
       \<lparr>username = Some ''bob'', email = ''bob@x.io'', password = None\<rparr>
     = (\<lparr>status = 500, body = message ''Create user Error''\<rparr>, [alice])"
  using signup_without_password[of "[alice]"
      "\<lparr>username = Some ''bob'', email = ''bob@x.io'', password = None\<rparr>" sample_lib sample_env]
  by (simp add: alice_def findOne_def sample_env_def)

theorem signup_without_password_counterexample:
  "signup sample_lib sample_env [alice]
       \<lparr>username = Some ''alice'', email = ''al@x.io'', password = None\<rparr>
     = (\<lparr>status = 400, body = message ''Users exists!''\<rparr>, [alice]) \<and>
   status (fst (signup sample_lib sample_env [alice]
       \<lparr>username = Some ''alice'', email = ''al@x.io'', password = None\<rparr>)) \<noteq> 500"
  by (simp add: signup_def findOne_def alice_def)

section \<open>The two failures of signin\<close>

text \<open>
  C2, as amended.  For every pair of signin requests, one with an email that matches
  no stored row and one with a stored row's email and a password that
  \<open>bcryptjs.compareSync\<close> rejects, both are answered with status 400, but the messages
  differ: \<open>Users not exists!\<close> for the unknown email and \<open>Incorrect password!\<close> for the
  wrong password.  The caller can tell the two apart.
\<close>

theorem signin_failures_differ:
  assumes "findOne store e1 = None"
      and "findOne store e2 = Some u" and "\<not> bcrypt_compare L p2 (user_password u)"
  shows "signin L now store \<lparr>username = n1, email = e1, password = pw1\<rparr>
           = \<lparr>status = 400, body = message ''Users not exists!''\<rparr> \<and>
         signin L now store \<lparr>username = n2, email = e2, password = Some p2\<rparr>
           = \<lparr>status = 400, body = message ''Incorrect password!''\<rparr> \<and>
         message ''Users not exists!'' \<noteq> message ''Incorrect password!''"
  using assms by (simp add: signin_def compareSync_def message_def)

theorem signin_failures_differ_witness:
  "signin sample_lib 1000 [alice] \<lparr>username = None, email = ''no@x.io'', password = Some ''123''\<rparr>
           = \<lparr>status = 400, body = message ''Users not exists!''\<rparr> \<and>
   signin sample_lib 1000 [alice] \<lparr>username = None, email = ''al@x.io'', password = Some ''bad''\<rparr>
           = \<lparr>status = 400, body = message ''Incorrect password!''\<rparr> \<and>
   message ''Users not exists!'' \<noteq> message ''Incorrect password!''"
  using signin_failures_differ[of "[alice]" "''no@x.io''" "''al@x.io''" alice sample_lib "''bad''"
      1000 None "Some ''123''" None]
  by (simp add: findOne_def alice_def sample_lib_def suffix_to_prefix)

theorem signin_failures_counterexample:
  "signin sample_lib 1000 [alice] \<lparr>username = None, email = ''no@x.io'', password = Some ''123''\<rparr>
     \<noteq> signin sample_lib 1000 [alice]
          \<lparr>username = None, email = ''al@x.io'', password = Some ''bad''\<rparr>"
  by (simp add: signin_def findOne_def alice_def sample_lib_def suffix_to_prefix compareSync_def
        message_def)

section \<open>The response of a successful signup\<close>

lemma signup_created:
  assumes "signup L ev store b = (r, store')" and "status r = 201"
  shows "\<exists>n p. username b = Some n \<and> password b = Some p \<and>
           findOne store (email b) = None \<and> uuid ev \<notin> set (map user_id store) \<and>
           store' = store @ [\<lparr>user_id = uuid ev, user_username = n, user_email = email b,
                               user_password = bcrypt_hash L p (salt ev),
                               createdAt = clock ev, updatedAt = clock ev\<rparr>] \<and>
           r = \<lparr>status = 201, body = JObj [(''message'', JStr ''Users created!''),
                  (''user'', toJSON \<lparr>user_id = uuid ev, user_username = n, user_email = email b,
                               user_password = bcrypt_hash L p (salt ev),
                               createdAt = clock ev, updatedAt = clock ev\<rparr>)]\<rparr>"
  using assms
  by (auto simp: signup_def hashSync_def create_def Let_def
           split: option.splits sum.splits if_splits prod.splits)

lemma sample_signup:
  "signup sample_lib sample_env [alice] bob_signup =
     (\<lparr>status = 201, body = JObj [(''message'', JStr ''Users created!''),
          (''user'', JObj [(''id'', JStr ''u2''), (''username'', JStr ''bob''),
                           (''email'', JStr ''bob@x.io''), (''password'', JStr ''salt$wp''),
                           (''createdAt'', JDate 1000), (''updatedAt'', JDate 1000)])]\<rparr>,
      [alice, \<lparr>user_id = ''u2'', user_username = ''bob'', user_email = ''bob@x.io'',
                user_password = ''salt$wp'', createdAt = 1000, updatedAt = 1000\<rparr>])"
  by (simp add: signup_def findOne_def alice_def bob_signup_def sample_env_def sample_lib_def
        hashSync_def create_def toJSON_def Let_def)

text \<open>
  C7, as amended.  For every successful signup (status 201), the response carries the
  message \<open>Users created!\<close> and a \<open>user\<close> object with every attribute of the created
  row: \<open>id\<close>, \<open>username\<close>, \<open>email\<close>, \<open>password\<close>, \<open>createdAt\<close> and \<open>updatedAt\<close>.  The
  \<open>password\<close> field holds the value \<open>bcryptjs.hashSync\<close> returned for the submitted
  password, that is the stored hash; the request's password string is not copied into
  the response.
\<close>

theorem signup_response_fields:
  assumes "signup L ev store b = (r, store')" and "status r = 201"
  shows "\<exists>n p fs. username b = Some n \<and> password b = Some p \<and>
           body r = JObj [(''message'', JStr ''Users created!''), (''user'', JObj fs)] \<and>
           set (user_fields r)
             = {''id'', ''username'', ''email'', ''password'', ''createdAt'', ''updatedAt''} \<and>
           map_of (user_object r) ''id'' = Some (JStr (uuid ev)) \<and>
           map_of (user_object r) ''username'' = Some (JStr n) \<and>
           map_of (user_object r) ''email'' = Some (JStr (email b)) \<and>
           map_of (user_object r) ''password'' = Some (JStr (bcrypt_hash L p (salt ev))) \<and>
           map_of (user_object r) ''createdAt'' = Some (JDate (clock ev)) \<and>
           map_of (user_object r) ''updatedAt'' = Some (JDate (clock ev))"
proof -
  from signup_created[OF assms] obtain n p where
    np: "username b = Some n" "password b = Some p" and
    r: "r = \<lparr>status = 201, body = JObj [(''message'', JStr ''Users created!''),
                  (''user'', toJSON \<lparr>user_id = uuid ev, user_username = n, user_email = email b,
                               user_password = bcrypt_hash L p (salt ev),
                               createdAt = clock ev, updatedAt = clock ev\<rparr>)]\<rparr>"
    by blast
  show ?thesis
    apply (rule exI[of _ n], rule exI[of _ p])
    apply (simp add: np r toJSON_def user_fields_def user_object_def)
    done
qed

theorem signup_response_fields_witness:
  "set (user_fields (fst (signup sample_lib sample_env [alice] bob_signup)))
     = {''id'', ''username'', ''email'', ''password'', ''createdAt'', ''updatedAt''} \<and>
   map_of (user_object (fst (signup sample_lib sample_env [alice] bob_signup))) ''password''
     = Some (JStr (bcrypt_hash sample_lib ''pw'' ''salt''))"
proof -
  have h: "signup sample_lib sample_env [alice] bob_signup
         = (fst (signup sample_lib sample_env [alice] bob_signup),
            snd (signup sample_lib sample_env [alice] bob_signup))" by simp
  have st: "status (fst (signup sample_lib sample_env [alice] bob_signup)) = 201"
    by (simp add: sample_signup)
  from signup_response_fields[OF h st] show ?thesis
    by (auto simp: bob_signup_def sample_env_def)
qed

theorem signup_response_counterexample:
  "status (fst (signup sample_lib sample_env [alice] bob_signup)) = 201 \<and>
   ''password'' \<in> set (user_fields (fst (signup sample_lib sample_env [alice] bob_signup))) \<and>
   ''password'' \<notin> {''id'', ''username'', ''email''}"
  unfolding sample_signup by (simp add: user_fields_def user_object_def)

section \<open>Creating a second row with a stored email\<close>

text \<open>
  C9.  The model declares no uniqueness for the email, so \<open>UserModel.create\<close> of a
  complete record with an unused primary key succeeds and returns the new row even when
  a row with the same email is already stored; afterwards the table holds two rows with
  that email.  The only thing that keeps a signup from doing so is the route's own
  \<open>findOne\<close> check, which answers 400 on the same table.
\<close>

theorem create_ignores_email:
  assumes "u \<in> set store" and "user_email u = e" and "i \<notin> set (map user_id store)"
  shows "(\<exists>new. create store \<lparr>new_id = i, new_username = Some n, new_email = Some e,
                               new_password = Some h\<rparr> now = Inr (new, store @ [new]) \<and>
               user_email new = e \<and> new \<noteq> u \<and> u \<in> set (store @ [new]) \<and>
               \<not> distinct (map user_email (store @ [new]))) \<and>
         signup L ev store \<lparr>username = un, email = e, password = pw\<rparr>
           = (\<lparr>status = 400, body = message ''Users exists!''\<rparr>, store)"
proof -
  define new where "new = \<lparr>user_id = i, user_username = n, user_email = e,
                            user_password = h, createdAt = now, updatedAt = now\<rparr>"
  from assms(1) have "user_id u \<in> set (map user_id store)" by simp
  with assms(3) have "user_id u \<noteq> user_id new" by (auto simp: new_def)
  then have differ: "new \<noteq> u" by auto
  have made: "create store \<lparr>new_id = i, new_username = Some n, new_email = Some e,
                            new_password = Some h\<rparr> now = Inr (new, store @ [new])"
    using assms(3) by (simp add: create_def Let_def new_def)
  have twice: "\<not> distinct (map user_email (store @ [new]))"
    using assms(1,2) by (auto simp: new_def)
  from findOne_member[OF assms(1,2)] obtain u' where "findOne store e = Some u'" by blast
  then have refused: "signup L ev store \<lparr>username = un, email = e, password = pw\<rparr>
           = (\<lparr>status = 400, body = message ''Users exists!''\<rparr>, store)"
    by (simp add: signup_def)
  from made differ twice assms(1) refused show ?thesis by (auto simp: new_def)
qed

theorem create_ignores_email_witness:
  "(\<exists>new. create [alice] \<lparr>new_id = ''u2'', new_username = Some ''al2'',
                           new_email = Some ''al@x.io'', new_password = Some ''h''\<rparr> 1000
             = Inr (new, [alice] @ [new]) \<and>
          user_email new = ''al@x.io'' \<and> new \<noteq> alice \<and> alice \<in> set ([alice] @ [new]) \<and>
          \<not> distinct (map user_email ([alice] @ [new]))) \<and>
   signup sample_lib sample_env [alice] \<lparr>username = None, email = ''al@x.io'', password = None\<rparr>
     = (\<lparr>status = 400, body = message ''Users exists!''\<rparr>, [alice])"
  using create_ignores_email[of alice "[alice]" "''al@x.io''" "''u2''" "''al2''" "''h''" 1000
      sample_lib sample_env None None]
  by (simp add: alice_def)

section \<open>The frontends' \<open>isAuthenticated\<close> flag\<close>

lemma truthy_iff: "truthy v \<longleftrightarrow> (\<exists>t. v = Some t \<and> t \<noteq> [])"
  by (cases v) (auto simp: truthy_def)

lemma reducer_keeps_flag:
  assumes "isAuthenticated s = truthy (auth_token s)" and "carries_token a"
  shows "isAuthenticated (fst (reducer (s, cookie) a)) = truthy (auth_token (fst (reducer (s, cookie) a)))"
  using assms by (cases a) (auto simp: truthy_def)

lemma foldl_reducer_keeps_flag:
  assumes "isAuthenticated (fst sc) = truthy (auth_token (fst sc))" and "list_all carries_token as"
  shows "isAuthenticated (fst (foldl reducer sc as)) = truthy (auth_token (fst (foldl reducer sc as)))"
  using assms
proof (induction as arbitrary: sc)
  case Nil
  then show ?case by simp
next
  case (Cons a as)
  obtain s cookie where sc: "sc = (s, cookie)" by (cases sc)
  have "isAuthenticated (fst (reducer sc a)) = truthy (auth_token (fst (reducer sc a)))"
    using Cons.prems reducer_keeps_flag[of s a cookie] by (simp add: sc)
  with Cons show ?case by simp
qed

text \<open>
  C8, as amended.  In the Context frontend \<open>isAuthenticated\<close> is, in every state, exactly
  the non-emptiness of the stored token string: at start-up that of the value
  \<open>getCookie('token')\<close> returned, after \<open>login\<close> that of the token passed in, after
  \<open>logout\<close> false.  In the Redux frontend the flag is the non-emptiness of the cookie
  value at start-up, \<open>loginSuccess\<close> sets it to true whatever token the action carries,
  and \<open>logout\<close> clears it; so after any sequence of actions in which every
  \<open>loginSuccess\<close> carries a non-empty token it is exactly the non-emptiness of the
  stored token.  No signature or expiry is looked at (the token is an arbitrary
  string throughout), and the Redux \<open>ProtectedRoute\<close> renders its children at start-up
  exactly when \<open>getCookie('token')\<close> returned a non-empty string.
\<close>

theorem frontend_flag_is_token_presence:
  shows "(ctx_isAuthenticated s \<longleftrightarrow> (\<exists>t. ctx_token s = Some t \<and> t \<noteq> [])) \<and>
         (ctx_isAuthenticated (UserProvider cookie) \<longleftrightarrow> (\<exists>t. cookie = Some t \<and> t \<noteq> [])) \<and>
         (ctx_isAuthenticated (login tok em s) \<longleftrightarrow> (\<exists>t. tok = Some t \<and> t \<noteq> [])) \<and>
         \<not> ctx_isAuthenticated (logout s) \<and>
         (isAuthenticated (initialState cookie) \<longleftrightarrow> (\<exists>t. cookie = Some t \<and> t \<noteq> [])) \<and>
         (list_all carries_token as \<longrightarrow>
            (isAuthenticated (fst (foldl reducer (initialState cookie, cookie) as)) \<longleftrightarrow>
             (\<exists>t. auth_token (fst (foldl reducer (initialState cookie, cookie) as)) = Some t \<and> t \<noteq> []))) \<and>
         isAuthenticated (fst (reducer (r, cookie) (loginSuccess tok em))) \<and>
         \<not> isAuthenticated (fst (reducer (r, cookie) logoutAction)) \<and>
         (ProtectedRoute (initialState cookie) = Children \<longleftrightarrow> (\<exists>t. cookie = Some t \<and> t \<noteq> []))"
proof -
  have init: "isAuthenticated (fst (initialState cookie, cookie))
                = truthy (auth_token (fst (initialState cookie, cookie)))"
    by (simp add: initialState_def)
  have "list_all carries_token as \<Longrightarrow>
          isAuthenticated (fst (foldl reducer (initialState cookie, cookie) as)) =
          truthy (auth_token (fst (foldl reducer (initialState cookie, cookie) as)))"
    using foldl_reducer_keeps_flag[OF init] by simp
  then show ?thesis
    by (auto simp: ctx_isAuthenticated_def UserProvider_def login_def logout_def initialState_def
          ProtectedRoute_def truthy_iff)
qed

theorem frontend_flag_witness:
  "isAuthenticated (fst (foldl reducer (initialState None, None) [loginStart, loginSuccess (Some ''tok'') ''al@x.io''])) \<and>
   auth_token (fst (foldl reducer (initialState None, None) [loginStart, loginSuccess (Some ''tok'') ''al@x.io''])) = Some ''tok'' \<and>
   ProtectedRoute (initialState (Some ''anything'')) = Children \<and>
   ctx_isAuthenticated (UserProvider (Some ''anything''))"
  using frontend_flag_is_token_presence[of "UserProvider (Some ''anything'')" "Some ''anything''" "Some ''x''" "''e''"
     "[loginStart, loginSuccess (Some ''tok'') ''al@x.io'']" "initialState None"]
    frontend_flag_is_token_presence[of "UserProvider None" "None" "Some ''x''" "''e''"
     "[loginStart, loginSuccess (Some ''tok'') ''al@x.io'']" "initialState None"]
  by (simp add: truthy_def initialState_def UserProvider_def)

theorem frontend_flag_counterexample:
  "isAuthenticated (fst (reducer (initialState None, None) (loginSuccess (Some '''') ''al@x.io''))) \<and>
   auth_token (fst (reducer (initialState None, None) (loginSuccess (Some '''') ''al@x.io''))) = Some '''' \<and>
   ProtectedRoute (fst (reducer (initialState None, None) (loginSuccess (Some '''') ''al@x.io''))) = Children"
  by (simp add: initialState_def ProtectedRoute_def)

section \<open>Splitting strings and verifying an issued token\<close>

lemma split_on_nonempty: "split_on c s \<noteq> []"
  by (induction s) (auto split: list.splits)

lemma split_on_no_sep: "c \<notin> set a \<Longrightarrow> split_on c a = [a]"
  by (induction a) auto

lemma split_on_append: "c \<notin> set a \<Longrightarrow> split_on c (a @ c # b) = a # split_on c b"
  by (induction a) auto

lemma length_split_on: "length (split_on c s) = Suc (length (filter (\<lambda>x. x = c) s))"
  by (induction s) (auto split: list.splits)

lemma hd_split_on: "hd (split_on c s) = takeWhile (\<lambda>x. x \<noteq> c) s"
  by (induction s) (auto split: list.splits simp: split_on_nonempty)

lemma b64url_plain:
  "b64url c \<Longrightarrow> c \<noteq> CHR ''.'' \<and> c \<noteq> CHR '' '' \<and> \<not> is_whitespace c"
  by (auto simp: b64url_def is_whitespace_def)

lemma b64url_no_dot_space:
  "list_all b64url s \<Longrightarrow> CHR ''.'' \<notin> set s \<and> CHR '' '' \<notin> set s"
  using b64url_plain by (auto simp: list_all_iff)

lemma b64url_not_blank: "s \<noteq> [] \<Longrightarrow> list_all b64url s \<Longrightarrow> \<not> list_all is_whitespace s"
  using b64url_plain by (cases s) auto

lemma segment_header: "segment jwt_header"
  by (simp add: segment_def jwt_header_def b64url_def)

lemma secrets_agree: "middleware_secret = signin_secret"
  by (simp add: middleware_secret_def signin_secret_def)

lemma jwt_sign_parts:
  "jwt_sign L em signin_secret t0 =
     jwt_header @ CHR ''.'' # payload_segment L em t0 @ CHR ''.'' # signature_segment L em t0"
  by (simp add: jwt_sign_def Let_def payload_segment_def signature_segment_def issued_claims_def)

lemma split_three:
  assumes "CHR ''.'' \<notin> set h" and "CHR ''.'' \<notin> set p" and "CHR ''.'' \<notin> set s"
  shows "split_on CHR ''.'' (h @ CHR ''.'' # p @ CHR ''.'' # s) = [h, p, s]"
  using assms by (simp add: split_on_append split_on_no_sep)

lemma bearer_argument:
  "js_index (split_on CHR '' '' (''Bearer '' @ t)) 1 = Some (takeWhile (\<lambda>x. x \<noteq> CHR '' '') t)"
proof -
  have "split_on CHR '' '' (''Bearer'' @ CHR '' '' # t) = ''Bearer'' # split_on CHR '' '' t"
    by (rule split_on_append) simp
  moreover obtain y ys where "split_on CHR '' '' t = y # ys"
    using split_on_nonempty[of "CHR '' ''" t] by (cases "split_on CHR '' '' t") auto
  ultimately show ?thesis
    using hd_split_on[of "CHR '' ''" t] by (simp add: js_index_def)
qed

lemma get_protected_bearer:
  "get_protected L now (Some (''Bearer '' @ t)) =
     (case jwt_verify L (Some (takeWhile (\<lambda>x. x \<noteq> CHR '' '') t)) middleware_secret now of
        Inr c \<Rightarrow> admitted c
      | Inl e \<Rightarrow> rejected_401)"
proof -
  have "prefix ''Bearer '' (''Bearer '' @ t)" by (rule prefixI) simp
  then show ?thesis
    using bearer_argument[of t]
    by (simp add: get_protected_def authMiddleware_def fresh_exchange_def res_json_def
          protected_handler_def admitted_def rejected_401_def split: sum.splits)
qed

lemma contract_facts:
  assumes "library_contract L em t0"
  shows "CHR ''.'' \<notin> set (payload_segment L em t0)" "CHR '' '' \<notin> set (payload_segment L em t0)"
        "CHR ''.'' \<notin> set (signature_segment L em t0)" "CHR '' '' \<notin> set (signature_segment L em t0)"
        "CHR ''.'' \<notin> set jwt_header" "CHR '' '' \<notin> set jwt_header"
        "dec_header L jwt_header = Some ''HS256''"
        "list_all b64url (payload_segment L em t0)" "list_all b64url (signature_segment L em t0)"
        "list_all b64url jwt_header"
        "payload_segment L em t0 \<noteq> []" "jwt_header \<noteq> []"
        "signature_segment L em t0 \<noteq> []"
        "dec_payload L (payload_segment L em t0) = Some (issued_claims em t0)"
        "\<not> list_all is_whitespace (signature_segment L em t0)"
  using assms segment_header b64url_no_dot_space[of "payload_segment L em t0"]
    b64url_no_dot_space[of "signature_segment L em t0"] b64url_no_dot_space[of jwt_header]
  by (simp_all add: library_contract_def segment_def)

lemma verify_issued:
  assumes "library_contract L em t0"
  shows "jwt_verify L (Some (jwt_sign L em signin_secret t0)) middleware_secret now =
           (if t0 + expiresIn \<le> now then Inl TokenExpiredError else Inr (issued_claims em t0))"
proof -
  let ?p = "payload_segment L em t0" and ?s = "signature_segment L em t0"
  note f = contract_facts[OF assms]
  have sp: "split_on CHR ''.'' (jwt_sign L em signin_secret t0) = [jwt_header, ?p, ?s]"
    unfolding jwt_sign_parts by (rule split_three[OF f(5) f(1) f(3)])
  have ne: "jwt_sign L em signin_secret t0 \<noteq> []" by (simp add: jwt_sign_parts)
  have sg: "?s = hmac L ''HS256'' middleware_secret (jwt_header @ ''.'' @ ?p)"
    by (simp add: signature_segment_def secrets_agree)
  have rx: "JWS_REGEX jwt_header ?p ?s"
    using f(8-12) by (simp add: JWS_REGEX_def)
  show ?thesis
    unfolding jwt_verify_def
    using ne sg f(15) rx by (simp add: sp f(7) f(14) issued_claims_def)
qed

lemma issued_no_space:
  assumes "library_contract L em t0"
  shows "takeWhile (\<lambda>x. x \<noteq> CHR '' '') (jwt_sign L em signin_secret t0) = jwt_sign L em signin_secret t0"
proof -
  from contract_facts[OF assms] have "CHR '' '' \<notin> set (jwt_sign L em signin_secret t0)"
    by (simp add: jwt_sign_parts)
  then show ?thesis by auto
qed

section \<open>Expiry of an issued token\<close>

text \<open>
  C5.  Every token the signin route issues carries the fixed, positive lifetime of one
  hour (\<open>expiresIn = 3600\<close> seconds after \<open>iat\<close>).  Presented as \<open>Bearer <token>\<close>
  while the clock reads less than \<open>iat + 3600\<close>, it is admitted: the handler runs and
  answers 200 with the token's email.  Once the clock reads \<open>iat + 3600\<close> or more,
  \<open>jwt.verify\<close> throws \<open>TokenExpiredError\<close> and the middleware answers 401
  \<open>Unauthorized!\<close> without calling the handler.
\<close>

theorem token_expiry:
  assumes "library_contract L em t0"
  shows "0 < expiresIn \<and>
         (now < t0 + expiresIn \<longrightarrow>
            get_protected L now (Some (''Bearer '' @ jwt_sign L em signin_secret t0))
              = admitted (issued_claims em t0)) \<and>
         (t0 + expiresIn \<le> now \<longrightarrow>
            jwt_verify L (Some (jwt_sign L em signin_secret t0)) middleware_secret now
              = Inl TokenExpiredError \<and>
            get_protected L now (Some (''Bearer '' @ jwt_sign L em signin_secret t0))
              = rejected_401)"
  unfolding get_protected_bearer issued_no_space[OF assms] verify_issued[OF assms]
  by (simp add: expiresIn_def)

lemma sample_contract: "library_contract sample_lib ''al@x.io'' 1000"
  by (simp add: library_contract_def payload_segment_def signature_segment_def issued_claims_def
        sample_lib_def sample_enc_def sample_dec_def expiresIn_def decimal.simps undecimal_def
        digit_def segment_def jwt_header_def signin_secret_def is_whitespace_def b64url_def)

theorem token_expiry_witness:
  "get_protected sample_lib 1000 (Some (''Bearer '' @ jwt_sign sample_lib ''al@x.io'' signin_secret 1000))
     = admitted (issued_claims ''al@x.io'' 1000) \<and>
   jwt_verify sample_lib (Some (jwt_sign sample_lib ''al@x.io'' signin_secret 1000)) middleware_secret 4600
     = Inl TokenExpiredError \<and>
   get_protected sample_lib 4600 (Some (''Bearer '' @ jwt_sign sample_lib ''al@x.io'' signin_secret 1000))
     = rejected_401"
  using token_expiry[OF sample_contract, of 1000] token_expiry[OF sample_contract, of 4600]
  by (simp add: expiresIn_def)

section \<open>Signup, signin, admission\<close>




section \<open>A request that fails the scheme check and still reaches the handler\<close>

text \<open>A request without the header gets the 403, and then the TypeError of
  \<open>undefined.split\<close> sends it to the \<open>catch\<close> block, whose second write throws; the
  handler is not called.\<close>

lemma missing_header_outcome:
  "get_protected L now None =
     \<lparr>sent = Some \<lparr>status = 403, body = message ''Incorrect Token! ''\<rparr>, user = None,
      handler_invoked = False, uncaught = Some ERR_HTTP_HEADERS_SENT\<rparr>"
  by (simp add: get_protected_def authMiddleware_def fresh_exchange_def res_json_def)

lemma scheme_argument:
  assumes "CHR '' '' \<notin> set w"
  shows "js_index (split_on CHR '' '' (w @ '' '' @ t)) 1 = Some (takeWhile (\<lambda>x. x \<noteq> CHR '' '') t)"
proof -
  have "split_on CHR '' '' (w @ CHR '' '' # t) = w # split_on CHR '' '' t"
    by (rule split_on_append[OF assms])
  moreover obtain y ys where "split_on CHR '' '' t = y # ys"
    using split_on_nonempty[of "CHR '' ''" t] by (cases "split_on CHR '' '' t") auto
  ultimately show ?thesis
    using hd_split_on[of "CHR '' ''" t] by (simp add: js_index_def)
qed

lemma other_scheme_no_prefix:
  assumes "CHR '' '' \<notin> set w" and "w \<noteq> ''Bearer''"
  shows "\<not> prefix ''Bearer '' (w @ '' '' @ t)"
proof
  assume "prefix ''Bearer '' (w @ '' '' @ t)"
  then obtain z where "w @ '' '' @ t = ''Bearer '' @ z" by (auto simp: prefix_def)
  then have eq: "w @ CHR '' '' # t = ''Bearer'' @ CHR '' '' # z" by simp
  have "split_on CHR '' '' (w @ CHR '' '' # t) = w # split_on CHR '' '' t"
    by (rule split_on_append[OF assms(1)])
  moreover have "split_on CHR '' '' (''Bearer'' @ CHR '' '' # z) = ''Bearer'' # split_on CHR '' '' z"
    by (rule split_on_append) simp
  ultimately have "w = ''Bearer''" using eq by simp
  with assms(2) show False by simp
qed

text \<open>
  C1 says that after a failed admission the handler is never invoked.  The code
  breaks this for a header whose scheme word is not \<open>Bearer\<close> but whose second
  space-separated word is a valid, unexpired token: the middleware writes the 403,
  does not return, verifies the token, sets \<open>req.user\<close> and calls \<open>next()\<close>; the handler
  runs, and its own write throws because the response is already sent.
\<close>

theorem wrong_scheme_reaches_handler:
  assumes "library_contract L em t0" and "now < t0 + expiresIn"
      and "CHR '' '' \<notin> set w" and "w \<noteq> ''Bearer''"
  shows "get_protected L now (Some (w @ '' '' @ jwt_sign L em signin_secret t0)) =
           \<lparr>sent = Some \<lparr>status = 403, body = message ''Incorrect Token! ''\<rparr>,
            user = Some (issued_claims em t0), handler_invoked = True,
            uncaught = Some ERR_HTTP_HEADERS_SENT\<rparr>"
proof -
  let ?a = "w @ '' '' @ jwt_sign L em signin_secret t0"
  have np: "\<not> prefix ''Bearer '' ?a" by (rule other_scheme_no_prefix[OF assms(3,4)])
  have arg: "js_index (split_on CHR '' '' ?a) 1 = Some (jwt_sign L em signin_secret t0)"
    unfolding scheme_argument[OF assms(3)] issued_no_space[OF assms(1)] ..
  have ok: "jwt_verify L (Some (jwt_sign L em signin_secret t0)) middleware_secret now
              = Inr (issued_claims em t0)"
    unfolding verify_issued[OF assms(1)] using assms(2) by simp
  show ?thesis
    unfolding get_protected_def authMiddleware_def
    using np arg ok by (simp add: fresh_exchange_def res_json_def protected_handler_def)
qed

theorem wrong_scheme_witness:
  "get_protected sample_lib 1000 (Some (''Token'' @ '' '' @ jwt_sign sample_lib ''al@x.io'' signin_secret 1000)) =
           \<lparr>sent = Some \<lparr>status = 403, body = message ''Incorrect Token! ''\<rparr>,
            user = Some (issued_claims ''al@x.io'' 1000), handler_invoked = True,
            uncaught = Some ERR_HTTP_HEADERS_SENT\<rparr>"
proof -
  have t: "(1000::nat) < 1000 + expiresIn" by (simp add: expiresIn_def)
  have w: "CHR '' '' \<notin> set ''Token''" "''Token'' \<noteq> ''Bearer''" by simp_all
  from wrong_scheme_reaches_handler[OF sample_contract t w] show ?thesis .
qed

section \<open>Altering one character of an issued token\<close>

lemma verify_malformed:
  "x \<noteq> [] \<Longrightarrow> length (split_on CHR ''.'' x) \<noteq> 3 \<Longrightarrow>
     jwt_verify L (Some x) k now = Inl (JsonWebTokenError ''jwt malformed'')"
  by (auto simp: jwt_verify_def split: list.splits)

lemma verify_invalid_token:
  assumes "split_on CHR ''.'' x = [h, p, s]" and "x \<noteq> []" and "\<not> JWS_REGEX h p s"
  shows "jwt_verify L (Some x) k now = Inl (JsonWebTokenError ''invalid token'')"
  using assms by (simp add: jwt_verify_def)

lemma verify_syntax_error:
  assumes "split_on CHR ''.'' x = [h, p, s]" and "x \<noteq> []" and "JWS_REGEX h p s"
      and "dec_header L h = Some alg" and "dec_payload L p = None"
  shows "jwt_verify L (Some x) k now = Inl SyntaxError"
  using assms by (simp add: jwt_verify_def)

lemma verify_signature_required:
  assumes "split_on CHR ''.'' x = [h, p, s]" and "x \<noteq> []" and "JWS_REGEX h p s"
      and "dec_header L h = Some alg" and "dec_payload L p = Some c" and "s = []"
  shows "jwt_verify L (Some x) k now = Inl (JsonWebTokenError ''jwt signature is required'')"
  using assms by (simp add: jwt_verify_def)

lemma verify_invalid_signature:
  assumes "split_on CHR ''.'' x = [h, p, s]" and "x \<noteq> []" and "JWS_REGEX h p s"
      and "dec_header L h = Some ''HS256''" and "dec_payload L p \<noteq> None"
      and "\<not> list_all is_whitespace s" and "s \<noteq> hmac L ''HS256'' k (h @ ''.'' @ p)"
  shows "jwt_verify L (Some x) k now = Inl (JsonWebTokenError ''invalid signature'')"
  using assms by (auto simp: jwt_verify_def)

lemma no_space_takeWhile: "CHR '' '' \<notin> set t \<Longrightarrow> takeWhile (\<lambda>x. x \<noteq> CHR '' '') t = t"
  by auto

lemma cut_at_space:
  "CHR '' '' \<notin> set a \<Longrightarrow> takeWhile (\<lambda>x. x \<noteq> CHR '' '') (a @ CHR '' '' # b) = a"
  by (induction a) auto

lemma tampered_payload_thrown:
  assumes lc: "library_contract L em t0"
      and i: "i < length (payload_segment L em t0)"
      and nc: "hmac L ''HS256'' middleware_secret
                 (jwt_header @ ''.'' @ (payload_segment L em t0)[i := ch])
                 \<noteq> signature_segment L em t0"
  shows "jwt_verify L (Some (takeWhile (\<lambda>x. x \<noteq> CHR '' '')
              (jwt_header @ ''.'' @ (payload_segment L em t0)[i := ch] @ ''.'' @
               signature_segment L em t0))) middleware_secret now
           = Inl (thrown_for L em t0 (InPayload i ch))"
proof -
  let ?P = "payload_segment L em t0" and ?S = "signature_segment L em t0"
  let ?T = "jwt_header @ ''.'' @ ?P[i := ch] @ ''.'' @ ?S"
  note f = contract_facts[OF lc]
  have P': "?P[i := ch] = take i ?P @ ch # drop (Suc i) ?P"
    using i by (rule upd_conv_take_nth_drop)
  have tk: "CHR ''.'' \<notin> set (take i ?P)" "CHR '' '' \<notin> set (take i ?P)"
           "CHR ''.'' \<notin> set (drop (Suc i) ?P)" "CHR '' '' \<notin> set (drop (Suc i) ?P)"
    using f(1,2) by (auto dest: in_set_takeD in_set_dropD)
  have tkb: "list_all b64url (take i ?P)" "list_all b64url (drop (Suc i) ?P)"
    using f(8) by (auto simp: list_all_iff dest: in_set_takeD in_set_dropD)
  consider (space) "ch = CHR '' ''" | (dot) "ch = CHR ''.''"
    | (other) "ch \<noteq> CHR '' ''" "ch \<noteq> CHR ''.''" by blast
  then show ?thesis
  proof cases
    case space
    have "?T = (jwt_header @ CHR ''.'' # take i ?P) @ CHR '' '' # (drop (Suc i) ?P @ CHR ''.'' # ?S)"
      using P' space by simp
    then have cut: "takeWhile (\<lambda>x. x \<noteq> CHR '' '') ?T = jwt_header @ CHR ''.'' # take i ?P"
      using cut_at_space[of "jwt_header @ CHR ''.'' # take i ?P"] f(6) tk(2) by simp
    have "split_on CHR ''.'' (jwt_header @ CHR ''.'' # take i ?P) = [jwt_header, take i ?P]"
      using f(5) tk(1) by (simp add: split_on_append split_on_no_sep)
    then have "length (split_on CHR ''.'' (jwt_header @ CHR ''.'' # take i ?P)) \<noteq> 3" by simp
    moreover have "jwt_header @ CHR ''.'' # take i ?P \<noteq> []" by simp
    ultimately show ?thesis
      unfolding cut using verify_malformed space by simp
  next
    case dot
    have whole: "takeWhile (\<lambda>x. x \<noteq> CHR '' '') ?T = ?T"
      by (rule no_space_takeWhile) (use f tk P' dot in simp)
    have "split_on CHR ''.'' ?T = [jwt_header, take i ?P, drop (Suc i) ?P, ?S]"
      using f(3,5) tk(1,3) P' dot by (simp add: split_on_append split_on_no_sep)
    then have "length (split_on CHR ''.'' ?T) \<noteq> 3" by simp
    moreover have "?T \<noteq> []" by simp
    ultimately show ?thesis
      unfolding whole using verify_malformed dot by simp
  next
    case other
    have seg: "CHR ''.'' \<notin> set (?P[i := ch])" "CHR '' '' \<notin> set (?P[i := ch])"
      using tk other P' by simp_all
    have whole: "takeWhile (\<lambda>x. x \<noteq> CHR '' '') ?T = ?T"
      by (rule no_space_takeWhile) (use f seg in simp)
    have sp: "split_on CHR ''.'' ?T = [jwt_header, ?P[i := ch], ?S]"
      using split_three[OF f(5) seg(1) f(3)] by simp
    have ne: "?T \<noteq> []" by simp
    show ?thesis
    proof (cases "b64url ch")
      case False
      then have "\<not> list_all b64url (?P[i := ch])" using P' by simp
      then have "\<not> JWS_REGEX jwt_header (?P[i := ch]) ?S" by (simp add: JWS_REGEX_def)
      from verify_invalid_token[OF sp ne this] show ?thesis
        unfolding whole using other False by simp
    next
      case True
      then have "list_all b64url (?P[i := ch])" using P' tkb by simp
      moreover have "?P[i := ch] \<noteq> []" using P' by simp
      ultimately have rx: "JWS_REGEX jwt_header (?P[i := ch]) ?S"
        using f(9,10,12) by (simp add: JWS_REGEX_def)
      show ?thesis
      proof (cases "dec_payload L (?P[i := ch])")
        case None
        from verify_syntax_error[OF sp ne rx f(7) None] show ?thesis
          unfolding whole using other True None by simp
      next
        case (Some c)
        then have dec: "dec_payload L (?P[i := ch]) \<noteq> None" by simp
        have ns: "?S \<noteq> hmac L ''HS256'' middleware_secret (jwt_header @ ''.'' @ ?P[i := ch])"
          using nc by auto
        from verify_invalid_signature[OF sp ne rx f(7) dec f(15) ns] show ?thesis
          unfolding whole using other True Some by simp
      qed
    qed
  qed
qed

lemma tampered_signature_thrown:
  assumes lc: "library_contract L em t0"
      and i: "i < length (signature_segment L em t0)"
      and ch: "ch \<noteq> signature_segment L em t0 ! i"
  shows "jwt_verify L (Some (takeWhile (\<lambda>x. x \<noteq> CHR '' '')
              (jwt_header @ ''.'' @ payload_segment L em t0 @ ''.'' @
               (signature_segment L em t0)[i := ch]))) middleware_secret now
           = Inl (thrown_for L em t0 (InSignature i ch))"
proof -
  let ?P = "payload_segment L em t0" and ?S = "signature_segment L em t0"
  let ?T = "jwt_header @ ''.'' @ ?P @ ''.'' @ ?S[i := ch]"
  note f = contract_facts[OF lc]
  have S': "?S[i := ch] = take i ?S @ ch # drop (Suc i) ?S"
    using i by (rule upd_conv_take_nth_drop)
  have tk: "CHR ''.'' \<notin> set (take i ?S)" "CHR '' '' \<notin> set (take i ?S)"
           "CHR ''.'' \<notin> set (drop (Suc i) ?S)" "CHR '' '' \<notin> set (drop (Suc i) ?S)"
    using f(3,4) by (auto dest: in_set_takeD in_set_dropD)
  have tkb: "list_all b64url (take i ?S)" "list_all b64url (drop (Suc i) ?S)"
    using f(9) by (auto simp: list_all_iff dest: in_set_takeD in_set_dropD)
  have sig: "?S = hmac L ''HS256'' middleware_secret (jwt_header @ ''.'' @ ?P)"
    by (simp add: signature_segment_def secrets_agree)
  have dp: "dec_payload L ?P \<noteq> None" using f(14) by simp
  consider (space) "ch = CHR '' ''" | (dot) "ch = CHR ''.''"
    | (other) "ch \<noteq> CHR '' ''" "ch \<noteq> CHR ''.''" by blast
  then show ?thesis
  proof cases
    case space
    let ?X = "jwt_header @ CHR ''.'' # ?P @ CHR ''.'' # take i ?S"
    have "?T = ?X @ CHR '' '' # drop (Suc i) ?S"
      using S' space by simp
    then have cut: "takeWhile (\<lambda>x. x \<noteq> CHR '' '') ?T = ?X"
      using cut_at_space[of ?X] f(2,6) tk(2) by simp
    have sp: "split_on CHR ''.'' ?X = [jwt_header, ?P, take i ?S]"
      by (rule split_three[OF f(5) f(1) tk(1)])
    have ne: "?X \<noteq> []" by simp
    have rx: "JWS_REGEX jwt_header ?P (take i ?S)"
      using f(8,10,11,12) tkb(1) by (simp add: JWS_REGEX_def)
    show ?thesis
    proof (cases "i = 0")
      case True
      then have e: "take i ?S = []" by simp
      from verify_signature_required[OF sp ne rx f(7) f(14) e]
      show ?thesis unfolding cut using space True by simp
    next
      case False
      then have "take i ?S \<noteq> []" using i by auto
      from b64url_not_blank[OF this tkb(1)] have ws: "\<not> list_all is_whitespace (take i ?S)" .
      have "length (take i ?S) \<noteq> length ?S" using i by simp
      then have "take i ?S \<noteq> ?S" by metis
      then have ns: "take i ?S \<noteq> hmac L ''HS256'' middleware_secret (jwt_header @ ''.'' @ ?P)"
        using sig by simp
      from verify_invalid_signature[OF sp ne rx f(7) dp ws ns] show ?thesis
        unfolding cut using space False by simp
    qed
  next
    case dot
    have whole: "takeWhile (\<lambda>x. x \<noteq> CHR '' '') ?T = ?T"
      by (rule no_space_takeWhile) (use f tk S' dot in simp)
    have "split_on CHR ''.'' ?T = [jwt_header, ?P, take i ?S, drop (Suc i) ?S]"
      using f(1,5) tk(1,3) S' dot by (simp add: split_on_append split_on_no_sep)
    then have "length (split_on CHR ''.'' ?T) \<noteq> 3" by simp
    moreover have "?T \<noteq> []" by simp
    ultimately show ?thesis
      unfolding whole using verify_malformed dot by simp
  next
    case other
    have seg: "CHR ''.'' \<notin> set (?S[i := ch])" "CHR '' '' \<notin> set (?S[i := ch])"
      using tk other S' by simp_all
    have whole: "takeWhile (\<lambda>x. x \<noteq> CHR '' '') ?T = ?T"
      by (rule no_space_takeWhile) (use f seg in simp)
    have sp: "split_on CHR ''.'' ?T = [jwt_header, ?P, ?S[i := ch]]"
      using split_three[OF f(5) f(1) seg(1)] by simp
    have ne: "?T \<noteq> []" by simp
    show ?thesis
    proof (cases "b64url ch")
      case False
      then have "\<not> list_all b64url (?S[i := ch])" using S' by simp
      then have "\<not> JWS_REGEX jwt_header ?P (?S[i := ch])" by (simp add: JWS_REGEX_def)
      from verify_invalid_token[OF sp ne this] show ?thesis
        unfolding whole using other False by simp
    next
      case True
      then have all: "list_all b64url (?S[i := ch])" using S' tkb by simp
      have nonempty: "?S[i := ch] \<noteq> []" using S' by simp
      have rx: "JWS_REGEX jwt_header ?P (?S[i := ch])"
        using f(8,10,11,12) all by (simp add: JWS_REGEX_def)
      from b64url_not_blank[OF nonempty all]
      have ws: "\<not> list_all is_whitespace (?S[i := ch])" .
      have "?S[i := ch] ! i \<noteq> ?S ! i" using i ch by simp
      then have "?S[i := ch] \<noteq> ?S" by metis
      then have ns: "?S[i := ch] \<noteq> hmac L ''HS256'' middleware_secret (jwt_header @ ''.'' @ ?P)"
        using sig by simp
      from verify_invalid_signature[OF sp ne rx f(7) dp ws ns] show ?thesis
        unfolding whole using other True by simp
    qed
  qed
qed

lemma thrown_when_parsing:
  "still_parses L em t0 tm \<Longrightarrow> thrown_for L em t0 tm = JsonWebTokenError ''invalid signature''"
  using b64url_plain by (cases tm) auto

text \<open>
  C4, as amended.  For every token the signin route issues and every change of a
  single character in its payload segment or its signature segment, the request
  \<open>Bearer <altered token>\<close> is rejected at every clock reading: \<open>jwt.verify\<close> throws,
  the middleware answers 401 \<open>Unauthorized!\<close>, \<open>req.user\<close> stays unset and the handler
  is not called.  For an altered payload this holds unless the altered signing input
  collides with the issued signature under the HMAC.  The exception is
  \<open>invalid signature\<close> when the new character is a base64url character and an altered
  payload still parses as JSON.  Otherwise \<open>jwt.verify\<close> throws earlier: \<open>jwt malformed\<close>
  for a dot, or for a space in the payload; \<open>invalid token\<close> for any other character
  outside the base64url alphabet; a \<open>SyntaxError\<close> for a payload that is no longer JSON.
  A space in the signature cuts the signature short, which gives \<open>invalid signature\<close>,
  or \<open>jwt signature is required\<close> when nothing is left of it.
\<close>

theorem tampered_token_rejected:
  assumes "library_contract L em t0"
      and "changes_one_char L em t0 tm"
      and "no_collision L em t0 tm"
  shows "get_protected L now (Some (''Bearer '' @ tampered L em t0 tm)) = rejected_401 \<and>
         jwt_verify L (js_index (split_on CHR '' '' (''Bearer '' @ tampered L em t0 tm)) 1)
             middleware_secret now = Inl (thrown_for L em t0 tm) \<and>
         (still_parses L em t0 tm \<longrightarrow>
            jwt_verify L (js_index (split_on CHR '' '' (''Bearer '' @ tampered L em t0 tm)) 1)
              middleware_secret now = Inl (JsonWebTokenError ''invalid signature''))"
proof -
  have thrown: "jwt_verify L (Some (takeWhile (\<lambda>x. x \<noteq> CHR '' '') (tampered L em t0 tm)))
                    middleware_secret now = Inl (thrown_for L em t0 tm)"
  proof (cases tm)
    case (InPayload i ch)
    with assms show ?thesis using tampered_payload_thrown[of L em t0 i ch now] by simp
  next
    case (InSignature i ch)
    with assms show ?thesis using tampered_signature_thrown[of L em t0 i ch now] by simp
  qed
  then have "get_protected L now (Some (''Bearer '' @ tampered L em t0 tm)) = rejected_401"
    unfolding get_protected_bearer by simp
  with thrown thrown_when_parsing[of L em t0 tm] show ?thesis
    unfolding bearer_argument by simp
qed

lemma sample_segments:
  "payload_segment sample_lib ''al@x.io'' 1000 = ''al_ax_dio-1000-4600''"
  "signature_segment sample_lib ''al@x.io'' 1000 =
     ''HS256_1234_eyJhbGciOiJIUzI1NiIsInR5cCI6IkpXVCJ9_dal__ax__dio_m1000_m4600''"
proof -
  show p: "payload_segment sample_lib ''al@x.io'' 1000 = ''al_ax_dio-1000-4600''"
    by (simp add: payload_segment_def issued_claims_def sample_lib_def sample_enc_def
          expiresIn_def decimal.simps)
  show "signature_segment sample_lib ''al@x.io'' 1000 =
     ''HS256_1234_eyJhbGciOiJIUzI1NiIsInR5cCI6IkpXVCJ9_dal__ax__dio_m1000_m4600''"
    unfolding signature_segment_def p
    by (simp add: sample_lib_def signin_secret_def jwt_header_def)
qed

theorem tampered_token_witness:
  "get_protected sample_lib 1000
      (Some (''Bearer '' @ tampered sample_lib ''al@x.io'' 1000 (InPayload 0 CHR ''b'')))
     = rejected_401 \<and>
   jwt_verify sample_lib (js_index (split_on CHR '' ''
      (''Bearer '' @ tampered sample_lib ''al@x.io'' 1000 (InPayload 0 CHR ''b''))) 1)
      middleware_secret 1000
     = Inl (JsonWebTokenError ''invalid signature'') \<and>
   get_protected sample_lib 1000
      (Some (''Bearer '' @ tampered sample_lib ''al@x.io'' 1000 (InSignature 0 CHR ''!'')))
     = rejected_401 \<and>
   jwt_verify sample_lib (js_index (split_on CHR '' ''
      (''Bearer '' @ tampered sample_lib ''al@x.io'' 1000 (InSignature 0 CHR ''!''))) 1)
      middleware_secret 1000
     = Inl (JsonWebTokenError ''invalid token'') \<and>
   jwt_verify sample_lib (js_index (split_on CHR '' ''
      (''Bearer '' @ tampered sample_lib ''al@x.io'' 1000 (InPayload 3 CHR ''Z''))) 1)
      middleware_secret 1000
     = Inl SyntaxError"
proof -
  note seg = sample_segments
  have c1: "changes_one_char sample_lib ''al@x.io'' 1000 (InPayload 0 CHR ''b'')"
    by (simp add: seg)
  have n1: "no_collision sample_lib ''al@x.io'' 1000 (InPayload 0 CHR ''b'')"
    by (simp add: seg) (simp add: sample_lib_def middleware_secret_def jwt_header_def)
  have sp1: "still_parses sample_lib ''al@x.io'' 1000 (InPayload 0 CHR ''b'')"
    by (simp add: seg b64url_def)
       (simp add: sample_lib_def sample_dec_def undecimal_def digit_def)
  have c2: "changes_one_char sample_lib ''al@x.io'' 1000 (InSignature 0 CHR ''!'')"
    by (simp add: seg)
  have n2: "no_collision sample_lib ''al@x.io'' 1000 (InSignature 0 CHR ''!'')"
    by simp
  have t2: "thrown_for sample_lib ''al@x.io'' 1000 (InSignature 0 CHR ''!'')
              = JsonWebTokenError ''invalid token''"
    by (simp add: b64url_def)
  have c3: "changes_one_char sample_lib ''al@x.io'' 1000 (InPayload 3 CHR ''Z'')"
    by (simp add: seg)
  have n3: "no_collision sample_lib ''al@x.io'' 1000 (InPayload 3 CHR ''Z'')"
    by (simp add: seg) (simp add: sample_lib_def middleware_secret_def jwt_header_def)
  have t3: "thrown_for sample_lib ''al@x.io'' 1000 (InPayload 3 CHR ''Z'') = SyntaxError"
    by (simp add: seg b64url_def)
       (simp add: sample_lib_def sample_dec_def undecimal_def digit_def)
  from tampered_token_rejected[OF sample_contract c1 n1, of 1000] sp1
       tampered_token_rejected[OF sample_contract c2 n2, of 1000] t2
       tampered_token_rejected[OF sample_contract c3 n3, of 1000] t3
  show ?thesis by simp
qed

theorem tampered_token_counterexample:
  "jwt_verify sample_lib (js_index (split_on CHR '' ''
      (''Bearer '' @ tampered sample_lib ''al@x.io'' 1000 (InPayload 0 CHR ''.''))) 1)
      middleware_secret 1000
     = Inl (JsonWebTokenError ''jwt malformed'') \<and>
   JsonWebTokenError ''jwt malformed'' \<noteq> JsonWebTokenError ''invalid signature''"
  by (simp add: sample_segments jwt_header_def js_index_def jwt_verify_def)

end
